theory Spec2Isabelle
  imports Main
begin

section \<open>Values read from JSON, with the Python operations the script applies to them\<close>

text \<open>
  \<open>json.load\<close> and \<open>response.json()\<close> give Python values: \<open>None\<close>, booleans, numbers,
  strings, lists and dicts. A dict is kept as the list of its items, in order (its keys are
  distinct); numbers are the integer literals (Python reads the other numeric literals as
  floats, which are left out).
\<close>

datatype json =
    JNull
  | JBool bool
  | JNum int
  | JStr string
  | JArr "json list"
  | JObj "(string \<times> json) list"

text \<open>The exceptions that can travel through the script.\<close>

datatype py_exn =
    KeyError
  | TypeError
  | AttributeError
  | UnicodeDecodeError
  | RequestException
  | Exception

text \<open>\<open>not x\<close> is \<open>\<not> truthy x\<close>.\<close>

fun truthy :: "json \<Rightarrow> bool" where
  "truthy JNull = False"
| "truthy (JBool b) = b"
| "truthy (JNum n) = (n \<noteq> 0)"
| "truthy (JStr s) = (s \<noteq> [])"
| "truthy (JArr xs) = (xs \<noteq> [])"
| "truthy (JObj kvs) = (kvs \<noteq> [])"

text \<open>\<open>x[key]\<close> for a string key: only a dict can be indexed by a string.\<close>

fun py_getitem :: "json \<Rightarrow> string \<Rightarrow> py_exn + json" where
  "py_getitem (JObj kvs) key =
     (case map_of kvs key of None \<Rightarrow> Inl KeyError | Some v \<Rightarrow> Inr v)"
| "py_getitem _ key = Inl TypeError"

text \<open>\<open>x.get(key, default)\<close>: only a dict has the method.\<close>

fun py_get :: "json \<Rightarrow> string \<Rightarrow> json \<Rightarrow> py_exn + json" where
  "py_get (JObj kvs) key dflt =
     (case map_of kvs key of None \<Rightarrow> Inr dflt | Some v \<Rightarrow> Inr v)"
| "py_get _ key dflt = Inl AttributeError"

text \<open>
  \<open>for x in v\<close>: a list gives its elements, a dict its keys, a string its characters
  (each a string of length one); nothing else can be iterated.
\<close>

fun py_iter :: "json \<Rightarrow> py_exn + json list" where
  "py_iter (JArr xs) = Inr xs"
| "py_iter (JObj kvs) = Inr (map (\<lambda>kv. JStr (fst kv)) kvs)"
| "py_iter (JStr s) = Inr (map (\<lambda>c. JStr [c]) s)"
| "py_iter _ = Inl TypeError"

text \<open>Lists and dicts cannot be members of a set.\<close>

fun hashable :: "json \<Rightarrow> bool" where
  "hashable (JArr xs) = False"
| "hashable (JObj kvs) = False"
| "hashable _ = True"

text \<open>\<open>==\<close> on the hashable values; \<open>True == 1\<close> and \<open>False == 0\<close> in Python.\<close>

fun py_eq :: "json \<Rightarrow> json \<Rightarrow> bool" where
  "py_eq JNull JNull = True"
| "py_eq (JStr a) (JStr b) = (a = b)"
| "py_eq (JNum a) (JNum b) = (a = b)"
| "py_eq (JBool a) (JBool b) = (a = b)"
| "py_eq (JBool a) (JNum b) = (b = (if a then 1 else 0))"
| "py_eq (JNum a) (JBool b) = (a = (if b then 1 else 0))"
| "py_eq _ _ = False"

text \<open>\<open>x in s\<close> for a set \<open>s\<close>, given by its elements: \<open>x\<close> is hashed first.\<close>

definition py_in :: "json \<Rightarrow> json list \<Rightarrow> py_exn + bool" where
  "py_in x s = (if hashable x then Inr (list_ex (py_eq x) s) else Inl TypeError)"

text \<open>\<open>sep.join(v)\<close>: \<open>v\<close> is iterated and every item must be a string.\<close>

fun join_strs :: "string \<Rightarrow> json list \<Rightarrow> py_exn + string" where
  "join_strs sep [] = Inr []"
| "join_strs sep [JStr s] = Inr s"
| "join_strs sep (JStr s # x # xs) =
     (case join_strs sep (x # xs) of Inl e \<Rightarrow> Inl e | Inr r \<Rightarrow> Inr (s @ sep @ r))"
| "join_strs sep (_ # xs) = Inl TypeError"

definition py_join :: "string \<Rightarrow> json \<Rightarrow> py_exn + string" where
  "py_join sep v = (case py_iter v of Inl e \<Rightarrow> Inl e | Inr xs \<Rightarrow> join_strs sep xs)"

section \<open>The remote API and what the script does to it\<close>

text \<open>
  The four requests of the script, with the payload fields that vary:
  \<open>conversations.list\<close>; \<open>conversations.create\<close> with \<open>name\<close> and \<open>is_private\<close>;
  \<open>conversations.setPurpose\<close> with \<open>channel\<close> and \<open>purpose\<close>;
  \<open>conversations.invite\<close> with \<open>channel\<close> and the joined \<open>users\<close>.
\<close>

datatype call =
    ConversationsList
  | ConversationsCreate json json
  | ConversationsSetPurpose json json
  | ConversationsInvite json string

text \<open>
  What a request comes back with: \<open>requests.get\<close>/\<open>requests.post\<close> itself raises a
  \<open>RequestException\<close> (no connection, timeout); or a response arrives whose status makes
  \<open>raise_for_status\<close> raise \<open>HTTPError\<close>, a \<open>RequestException\<close> too; or the response has
  a good status and \<open>response.json()\<close> gives its body. (A body that is not JSON is left out:
  the class of what \<open>response.json()\<close> raises then depends on the version of requests.)
\<close>

datatype response =
    Transport_Error
  | HTTP_Error
  | Body json

text \<open>
  The observable behaviour of a run is the sequence of its requests and pauses. The remote
  side is any function from the requests issued so far (the current one last) to a response.
\<close>

datatype event =
    Request call
  | Sleep nat

type_synonym slack = "call list \<Rightarrow> response"

fun calls_of :: "event list \<Rightarrow> call list" where
  "calls_of [] = []"
| "calls_of (Request c # es) = c # calls_of es"
| "calls_of (Sleep n # es) = calls_of es"

definition request :: "slack \<Rightarrow> call \<Rightarrow> event list \<Rightarrow> event list \<times> response" where
  "request remote c tr = (tr @ [Request c], remote (calls_of tr @ [c]))"

subsection \<open>\<open>get_existing_channels\<close>\<close>

definition get_existing_channels :: "slack \<Rightarrow> event list \<Rightarrow> event list \<times> (py_exn + json)" where
  "get_existing_channels remote tr =
     (case request remote ConversationsList tr of (tr', r) \<Rightarrow>
        (tr',
         case r of
           Transport_Error \<Rightarrow> Inr (JArr [])
         | HTTP_Error \<Rightarrow> Inr (JArr [])
         | Body data \<Rightarrow>
             (case py_get data ''ok'' JNull of
                Inl e \<Rightarrow> Inl e
              | Inr ok \<Rightarrow>
                  if \<not> truthy ok then Inr (JArr [])
                  else py_get data ''channels'' (JArr []))))"

subsection \<open>\<open>invite_users_to_channel\<close>\<close>

text \<open>
  The payload is built and the request is posted outside the \<open>try\<close>: a \<open>TypeError\<close> of
  \<open>join\<close> and a \<open>RequestException\<close> of \<open>requests.post\<close> leave the function as they are.
  Whatever is raised inside the \<open>try\<close> is raised again as a plain \<open>Exception\<close>.
\<close>

definition invite_users_to_channel ::
  "slack \<Rightarrow> json \<Rightarrow> json \<Rightarrow> event list \<Rightarrow> event list \<times> (py_exn + json)" where
  "invite_users_to_channel remote channel_id user_ids tr =
     (case py_join '','' user_ids of
        Inl e \<Rightarrow> (tr, Inl e)
      | Inr users \<Rightarrow>
          (case request remote (ConversationsInvite channel_id users) tr of (tr', r) \<Rightarrow>
             (tr',
              case r of
                Transport_Error \<Rightarrow> Inl RequestException
              | HTTP_Error \<Rightarrow> Inl Exception
              | Body result \<Rightarrow>
                  (case py_get result ''ok'' (JBool False) of
                     Inl e \<Rightarrow> Inl Exception
                   | Inr ok \<Rightarrow> if \<not> truthy ok then Inl Exception else Inr result))))"

subsection \<open>\<open>create_channel\<close>\<close>

text \<open>
  \<open>except RequestException\<close> turns a \<open>RequestException\<close> raised anywhere in the body, also
  one that leaves \<open>invite_users_to_channel\<close>, into the result \<open>False\<close>; any other
  exception leaves the function.
\<close>

definition create_channel ::
  "slack \<Rightarrow> json \<Rightarrow> json \<Rightarrow> json \<Rightarrow> json \<Rightarrow> event list \<Rightarrow> event list \<times> (py_exn + bool)" where
  "create_channel remote channel_name description is_private invite_users_list tr =
     (case request remote (ConversationsCreate channel_name is_private) tr of (tr1, r) \<Rightarrow>
        (case r of
           Transport_Error \<Rightarrow> (tr1, Inr False)
         | HTTP_Error \<Rightarrow> (tr1, Inr False)
         | Body data \<Rightarrow>
             (case py_get data ''ok'' JNull of
                Inl e \<Rightarrow> (tr1, Inl e)
              | Inr ok \<Rightarrow>
                  if \<not> truthy ok then (tr1, Inr False)
                  else
                    (case py_getitem data ''channel'' of
                       Inl e \<Rightarrow> (tr1, Inl e)
                     | Inr ch \<Rightarrow>
                         (case py_getitem ch ''id'' of
                            Inl e \<Rightarrow> (tr1, Inl e)
                          | Inr channel_id \<Rightarrow>
                              (case request remote
                                      (ConversationsSetPurpose channel_id description) tr1 of
                                 (tr2, r2) \<Rightarrow>
                                   (case r2 of
                                      Transport_Error \<Rightarrow> (tr2, Inr False)
                                    | HTTP_Error \<Rightarrow> (tr2, Inr False)
                                    | Body topic_data \<Rightarrow>
                                        (case py_get topic_data ''ok'' JNull of
                                           Inl e \<Rightarrow> (tr2, Inl e)
                                         | Inr topic_ok \<Rightarrow>
                                             if \<not> truthy topic_ok then (tr2, Inr False)
                                             else
                                               (case invite_users_to_channel remote channel_id
                                                       invite_users_list tr2 of
                                                  (tr3, invited) \<Rightarrow>
                                                    (case invited of
                                                       Inl RequestException \<Rightarrow> (tr3, Inr False)
                                                     | Inl e \<Rightarrow> (tr3, Inl e)
                                                     | Inr result \<Rightarrow> (tr3, Inr True)))))))))))"

subsection \<open>\<open>main\<close>\<close>

text \<open>
  Reading a document: \<open>open\<close> raises \<open>IOError\<close>, or the file is not UTF-8 and reading it
  raises \<open>UnicodeDecodeError\<close>, or its text is not JSON and \<open>json.load\<close> raises
  \<open>JSONDecodeError\<close>, or \<open>json.load\<close> gives the value.
\<close>

datatype document =
    IOError
  | Undecodable
  | JSONDecodeError
  | Loaded json

text \<open>
  How a run ends: at one of the three \<open>return\<close> statements of \<open>main\<close> (each after its own
  log line), at the end of \<open>main\<close>, or with an exception that nothing catches.
\<close>

datatype outcome =
    Config_Error
  | Collision json
  | Create_Failed json
  | Completed
  | Uncaught py_exn

record env =
  channels_json :: document
  init_invite_users_json :: document
  slack_api :: slack

text \<open>The \<open>try\<close> around the two \<open>json.load\<close>; the second file is read only after the first.\<close>

definition load_documents :: "document \<Rightarrow> document \<Rightarrow> outcome + (json \<times> json)" where
  "load_documents cf uf =
     (case cf of
        IOError \<Rightarrow> Inl Config_Error
      | JSONDecodeError \<Rightarrow> Inl Config_Error
      | Undecodable \<Rightarrow> Inl (Uncaught UnicodeDecodeError)
      | Loaded channels_list \<Rightarrow>
          (case uf of
             IOError \<Rightarrow> Inl Config_Error
           | JSONDecodeError \<Rightarrow> Inl Config_Error
           | Undecodable \<Rightarrow> Inl (Uncaught UnicodeDecodeError)
           | Loaded invite_users_list \<Rightarrow> Inr (channels_list, invite_users_list)))"

text \<open>The set comprehension \<open>{channel["name"] for channel in existing_channels}\<close>.\<close>

fun collect_names :: "json list \<Rightarrow> py_exn + json list" where
  "collect_names [] = Inr []"
| "collect_names (channel # rest) =
     (case py_getitem channel ''name'' of
        Inl e \<Rightarrow> Inl e
      | Inr n \<Rightarrow>
          if \<not> hashable n then Inl TypeError
          else (case collect_names rest of Inl e \<Rightarrow> Inl e | Inr ns \<Rightarrow> Inr (n # ns)))"

definition existing_channel_names :: "json \<Rightarrow> py_exn + json list" where
  "existing_channel_names existing_channels =
     (case py_iter existing_channels of Inl e \<Rightarrow> Inl e | Inr chs \<Rightarrow> collect_names chs)"

text \<open>
  The first loop of \<open>main\<close>: \<open>Inr (Some n)\<close> is the \<open>return\<close> at the first name found among
  the existing ones, \<open>Inr None\<close> the end of the loop.
\<close>

fun duplicate_check :: "json list \<Rightarrow> json list \<Rightarrow> py_exn + json option" where
  "duplicate_check names [] = Inr None"
| "duplicate_check names (channel # rest) =
     (case py_getitem channel ''name'' of
        Inl e \<Rightarrow> Inl e
      | Inr n \<Rightarrow>
          (case py_in n names of
             Inl e \<Rightarrow> Inl e
           | Inr found \<Rightarrow> if found then Inr (Some n) else duplicate_check names rest))"

text \<open>The second loop of \<open>main\<close>.\<close>

fun create_all :: "slack \<Rightarrow> json \<Rightarrow> json list \<Rightarrow> event list \<Rightarrow> event list \<times> outcome" where
  "create_all remote invite_users_list [] tr = (tr, Completed)"
| "create_all remote invite_users_list (channel # rest) tr =
     (case py_get channel ''name'' JNull of
        Inl e \<Rightarrow> (tr, Uncaught e)
      | Inr name \<Rightarrow>
          (case py_get channel ''description'' (JStr []) of
             Inl e \<Rightarrow> (tr, Uncaught e)
           | Inr description \<Rightarrow>
               (case py_get channel ''is_private'' (JBool False) of
                  Inl e \<Rightarrow> (tr, Uncaught e)
                | Inr is_private \<Rightarrow>
                    (case py_getitem invite_users_list ''users'' of
                       Inl e \<Rightarrow> (tr, Uncaught e)
                     | Inr users \<Rightarrow>
                         (case create_channel remote name description is_private users tr of
                            (tr', res) \<Rightarrow>
                              (case res of
                                 Inl e \<Rightarrow> (tr', Uncaught e)
                               | Inr success \<Rightarrow>
                                   if \<not> success then (tr', Create_Failed name)
                                   else create_all remote invite_users_list rest
                                          (tr' @ [Sleep 1])))))))"

text \<open>\<open>main\<close> after the two documents are loaded.\<close>

definition run :: "slack \<Rightarrow> json \<Rightarrow> json \<Rightarrow> event list \<times> outcome" where
  "run remote channels_list invite_users_list =
     (case get_existing_channels remote [] of (tr, ex) \<Rightarrow>
        (case ex of
           Inl e \<Rightarrow> (tr, Uncaught e)
         | Inr existing_channels \<Rightarrow>
             (case existing_channel_names existing_channels of
                Inl e \<Rightarrow> (tr, Uncaught e)
              | Inr names \<Rightarrow>
                  (case py_iter channels_list of
                     Inl e \<Rightarrow> (tr, Uncaught e)
                   | Inr channels \<Rightarrow>
                       (case duplicate_check names channels of
                          Inl e \<Rightarrow> (tr, Uncaught e)
                        | Inr (Some n) \<Rightarrow> (tr, Collision n)
                        | Inr None \<Rightarrow> create_all remote invite_users_list channels tr)))))"

definition main :: "env \<Rightarrow> event list \<times> outcome" where
  "main e =
     (case load_documents (channels_json e) (init_invite_users_json e) of
        Inl out \<Rightarrow> ([], out)
      | Inr (channels_list, invite_users_list) \<Rightarrow>
          run (slack_api e) channels_list invite_users_list)"

section \<open>Successful requests and the shape of a run\<close>

text \<open>
  A response is a success when the script takes it as one: a body that is a dict whose \<open>ok\<close>
  is true and, for a creation, in which \<open>data["channel"]["id"]\<close> can be read.
\<close>

fun response_ok :: "response \<Rightarrow> bool" where
  "response_ok (Body data) =
     (case py_get data ''ok'' JNull of Inl e \<Rightarrow> False | Inr ok \<Rightarrow> truthy ok)"
| "response_ok _ = False"

fun created_id :: "response \<Rightarrow> json option" where
  "created_id (Body data) =
     (case py_getitem data ''channel'' of
        Inl e \<Rightarrow> None
      | Inr ch \<Rightarrow> (case py_getitem ch ''id'' of Inl e \<Rightarrow> None | Inr i \<Rightarrow> Some i))"
| "created_id _ = None"

fun succeeds :: "call \<Rightarrow> response \<Rightarrow> bool" where
  "succeeds (ConversationsCreate n p) r = (response_ok r \<and> created_id r \<noteq> None)"
| "succeeds c r = response_ok r"

text \<open>
  \<open>all_succeed remote h cs\<close>: issued one after the other after the requests \<open>h\<close>, each of
  the requests \<open>cs\<close> gets a successful response from \<open>remote\<close>.
\<close>

fun all_succeed :: "slack \<Rightarrow> call list \<Rightarrow> call list \<Rightarrow> bool" where
  "all_succeed remote h [] = True"
| "all_succeed remote h (c # cs) =
     (succeeds c (remote (h @ [c])) \<and> all_succeed remote (h @ [c]) cs)"

text \<open>The kind of an event, with the name for a creation and the length for a pause.\<close>

datatype step = Listing | Creation json | Purpose | Invitation | Pause nat

fun step_of :: "event \<Rightarrow> step" where
  "step_of (Request ConversationsList) = Listing"
| "step_of (Request (ConversationsCreate n p)) = Creation n"
| "step_of (Request (ConversationsSetPurpose c d)) = Purpose"
| "step_of (Request (ConversationsInvite c u)) = Invitation"
| "step_of (Sleep k) = Pause k"

fun is_creation :: "step \<Rightarrow> bool" where
  "is_creation (Creation n) = True"
| "is_creation _ = False"

text \<open>
  The events of a channel that is provisioned without failure, given the users joined for the
  invite and the id of the new channel: the create request with what \<open>channel.get\<close> gives
  for \<open>name\<close> and \<open>is_private\<close>, the setPurpose request for that id with what it gives for
  \<open>description\<close>, the invite request for that id with the users, and the pause.
\<close>

definition entry_field :: "json \<Rightarrow> string \<Rightarrow> json \<Rightarrow> json" where
  "entry_field channel key dflt = (case py_get channel key dflt of Inl e \<Rightarrow> dflt | Inr v \<Rightarrow> v)"

definition provisioning :: "string \<Rightarrow> json \<Rightarrow> json \<Rightarrow> event list" where
  "provisioning joined channel channel_id =
     [Request (ConversationsCreate (entry_field channel ''name'' JNull)
                 (entry_field channel ''is_private'' (JBool False))),
      Request (ConversationsSetPurpose channel_id (entry_field channel ''description'' (JStr []))),
      Request (ConversationsInvite channel_id joined),
      Sleep 1]"

section \<open>A remote workspace and documents to run the script on\<close>

text \<open>
  A workspace that lists the given channels, refuses to create a name a second time
  (\<open>name_taken\<close>) and accepts every other request. The id it gives a new channel is the name.
\<close>

fun created :: "call list \<Rightarrow> json list" where
  "created [] = []"
| "created (ConversationsCreate n p # cs) = n # created cs"
| "created (_ # cs) = created cs"

definition workspace :: "json list \<Rightarrow> slack" where
  "workspace existing h =
     (case last h of
        ConversationsList \<Rightarrow> Body (JObj [(''ok'', JBool True), (''channels'', JArr existing)])
      | ConversationsCreate n p \<Rightarrow>
          (if n \<in> set (created (butlast h))
           then Body (JObj [(''ok'', JBool False), (''error'', JStr ''name_taken'')])
           else Body (JObj [(''ok'', JBool True), (''channel'', JObj [(''id'', n)])]))
      | ConversationsSetPurpose c p \<Rightarrow> Body (JObj [(''ok'', JBool True)])
      | ConversationsInvite c u \<Rightarrow> Body (JObj [(''ok'', JBool True)]))"

text \<open>\<open>failing which r remote\<close> answers \<open>r\<close> to the requests \<open>which\<close> selects.\<close>

fun is_set_purpose :: "call \<Rightarrow> bool" where
  "is_set_purpose (ConversationsSetPurpose c d) = True"
| "is_set_purpose _ = False"

fun is_invite :: "call \<Rightarrow> bool" where
  "is_invite (ConversationsInvite c u) = True"
| "is_invite _ = False"

definition failing :: "(call \<Rightarrow> bool) \<Rightarrow> response \<Rightarrow> slack \<Rightarrow> slack" where
  "failing which r remote h = (if which (last h) then r else remote h)"

definition purpose_refused :: slack where
  "purpose_refused =
     failing is_set_purpose
       (Body (JObj [(''ok'', JBool False), (''error'', JStr ''channel_not_found'')]))
       (workspace [])"

definition invite_refused :: slack where
  "invite_refused =
     failing is_invite
       (Body (JObj [(''ok'', JBool False), (''error'', JStr ''user_not_found'')]))
       (workspace [])"

definition invite_unreachable :: slack where
  "invite_unreachable = failing is_invite Transport_Error (workspace [])"

definition two_channels :: json where
  "two_channels =
     JArr [JObj [(''name'', JStr ''proj-a'')],
           JObj [(''name'', JStr ''proj-b''), (''description'', JStr ''B''),
                 (''is_private'', JBool True)]]"

definition two_users :: json where
  "two_users = JObj [(''users'', JArr [JStr ''U1'', JStr ''U2''])]"

definition all_fine :: env where
  "all_fine =
     \<lparr>channels_json = Loaded two_channels, init_invite_users_json = Loaded two_users,
      slack_api = workspace []\<rparr>"

definition remote_has_b :: env where
  "remote_has_b =
     \<lparr>channels_json = Loaded two_channels, init_invite_users_json = Loaded two_users,
      slack_api = workspace [JObj [(''id'', JStr ''C9''), (''name'', JStr ''proj-b'')]]\<rparr>"

definition same_name_twice :: env where
  "same_name_twice =
     \<lparr>channels_json = Loaded (JArr [JObj [(''name'', JStr ''proj-a'')],
                                    JObj [(''name'', JStr ''proj-a'')]]),
      init_invite_users_json = Loaded two_users,
      slack_api = workspace []\<rparr>"

definition nameless_entry :: env where
  "nameless_entry =
     \<lparr>channels_json = Loaded (JArr [JObj [(''name'', JStr ''proj-a'')],
                                    JObj [(''description'', JStr ''B'')]]),
      init_invite_users_json = Loaded two_users,
      slack_api = workspace []\<rparr>"

definition invite_down :: env where
  "invite_down =
     \<lparr>channels_json = Loaded two_channels, init_invite_users_json = Loaded two_users,
      slack_api = invite_unreachable\<rparr>"

definition no_users_key :: env where
  "no_users_key =
     \<lparr>channels_json = Loaded two_channels,
      init_invite_users_json = Loaded (JObj [(''members'', JArr [JStr ''U1''])]),
      slack_api = workspace []\<rparr>"

definition no_invite_file :: env where
  "no_invite_file =
     \<lparr>channels_json = Loaded two_channels, init_invite_users_json = IOError,
      slack_api = workspace []\<rparr>"

section \<open>Properties\<close>

subsection \<open>Auxiliary facts\<close>

lemmas run_defs = main_def load_documents_def run_def get_existing_channels_def request_def
  existing_channel_names_def py_in_def create_channel_def invite_users_to_channel_def
  py_join_def workspace_def failing_def purpose_refused_def invite_refused_def
  invite_unreachable_def two_channels_def two_users_def

lemma calls_of_append: "calls_of (xs @ ys) = calls_of xs @ calls_of ys"
  by (induction xs rule: calls_of.induct) simp_all

lemma all_succeed_append:
  "all_succeed remote h (xs @ ys) \<longleftrightarrow>
     all_succeed remote h xs \<and> all_succeed remote (h @ xs) ys"
  by (induction xs arbitrary: h) auto

lemma succeeds_in_run:
  assumes "all_succeed remote [] (calls_of T)" and "T = tr @ Request c # ext"
  shows "succeeds c (remote (calls_of tr @ [c]))"
  using assms by (simp add: calls_of_append all_succeed_append)

lemma response_ok_cases:
  assumes "response_ok r"
  obtains data ok where "r = Body data" "py_get data ''ok'' JNull = Inr ok" "truthy ok"
  using assms by (cases r) (auto split: sum.splits)

lemma get_existing_channels_trace:
  "fst (get_existing_channels remote tr) = tr @ [Request ConversationsList]"
  by (simp add: get_existing_channels_def request_def)

lemma get_existing_channels_first:
  assumes "snd (get_existing_channels remote []) = Inr existing"
  shows "get_existing_channels remote [] = ([Request ConversationsList], Inr existing)"
  using assms get_existing_channels_trace [of remote "[]"]
  by (cases "get_existing_channels remote []") simp

lemma duplicate_check_pass:
  "duplicate_check names cs = Inr None \<longleftrightarrow>
     list_all (\<lambda>c. \<exists>n. py_getitem c ''name'' = Inr n \<and> py_in n names = Inr False) cs"
  by (induction cs) (auto split: sum.splits)

lemma duplicate_check_collision:
  assumes "c \<in> set cs" "py_getitem c ''name'' = Inr n" "py_in n names = Inr True"
  shows "duplicate_check names cs \<noteq> Inr None"
  using assms by (fastforce simp add: duplicate_check_pass list_all_iff)

lemma has_name_get:
  assumes "py_getitem c ''name'' = Inr n"
  shows "py_get c ''name'' d = Inr n \<and> (\<exists>x. py_get c ''description'' d2 = Inr x)
         \<and> (\<exists>y. py_get c ''is_private'' d3 = Inr y)"
  using assms by (cases c) (auto split: option.splits)

text \<open>What \<open>create_channel\<close> does, by the response to each of its requests.\<close>

lemma create_refused:
  assumes "remote (calls_of tr @ [ConversationsCreate name is_private]) = r"
    and "r = Transport_Error \<or> r = HTTP_Error \<or>
         (\<exists>kvs. r = Body (JObj kvs) \<and> map_of kvs ''ok'' = Some (JBool False))"
  shows "create_channel remote name description is_private users tr =
           (tr @ [Request (ConversationsCreate name is_private)], Inr False)"
  using assms by (auto simp add: create_channel_def request_def)

lemma set_purpose_refused:
  assumes "remote (calls_of tr @ [ConversationsCreate name is_private]) = r1"
    and "response_ok r1" "created_id r1 = Some channel_id"
    and "remote (calls_of tr @ [ConversationsCreate name is_private,
            ConversationsSetPurpose channel_id description]) = r2"
    and "r2 = Transport_Error \<or> r2 = HTTP_Error \<or>
         (\<exists>kvs. r2 = Body (JObj kvs) \<and> map_of kvs ''ok'' = Some (JBool False))"
  shows "create_channel remote name description is_private users tr =
           (tr @ [Request (ConversationsCreate name is_private),
                  Request (ConversationsSetPurpose channel_id description)], Inr False)"
proof -
  obtain data ok where d: "r1 = Body data" "py_get data ''ok'' JNull = Inr ok" "truthy ok"
    using assms(2) by (rule response_ok_cases)
  obtain ch where ch: "py_getitem data ''channel'' = Inr ch" "py_getitem ch ''id'' = Inr channel_id"
    using assms(3) d(1) by (auto split: sum.splits)
  show ?thesis
    using assms(1,4,5) d ch
    by (auto simp add: create_channel_def request_def calls_of_append)
qed

lemma invite_reached:
  assumes "remote (calls_of tr @ [ConversationsCreate name is_private]) = r1"
    and "response_ok r1" "created_id r1 = Some channel_id"
    and "response_ok (remote (calls_of tr @ [ConversationsCreate name is_private,
            ConversationsSetPurpose channel_id description]))"
    and "py_join '','' users = Inr joined"
    and "remote (calls_of tr @ [ConversationsCreate name is_private,
            ConversationsSetPurpose channel_id description,
            ConversationsInvite channel_id joined]) = r3"
  shows "create_channel remote name description is_private users tr =
           (tr @ [Request (ConversationsCreate name is_private),
                  Request (ConversationsSetPurpose channel_id description),
                  Request (ConversationsInvite channel_id joined)],
            if r3 = Transport_Error then Inr False
            else if response_ok r3 then Inr True else Inl Exception)"
proof -
  obtain data ok where d: "r1 = Body data" "py_get data ''ok'' JNull = Inr ok" "truthy ok"
    using assms(2) by (rule response_ok_cases)
  obtain ch where ch: "py_getitem data ''channel'' = Inr ch" "py_getitem ch ''id'' = Inr channel_id"
    using assms(3) d(1) by (auto split: sum.splits)
  obtain t tok where t: "remote (calls_of tr @ [ConversationsCreate name is_private,
            ConversationsSetPurpose channel_id description]) = Body t"
      "py_get t ''ok'' JNull = Inr tok" "truthy tok"
    using assms(4) by (rule response_ok_cases)
  have invited: "invite_users_to_channel remote channel_id users
          (tr @ [Request (ConversationsCreate name is_private),
                  Request (ConversationsSetPurpose channel_id description)]) =
       (tr @ [Request (ConversationsCreate name is_private),
                  Request (ConversationsSetPurpose channel_id description),
                  Request (ConversationsInvite channel_id joined)],
        if r3 = Transport_Error then Inl RequestException
        else if response_ok r3 then (case r3 of Body result \<Rightarrow> Inr result)
        else Inl Exception)"
  proof (cases r3)
    case (Body result)
    then show ?thesis
      using assms(5,6)
      by (cases result)
         (auto simp add: invite_users_to_channel_def request_def calls_of_append
            split: option.splits)
  qed (use assms(5,6) in
        \<open>auto simp add: invite_users_to_channel_def request_def calls_of_append\<close>)
  show ?thesis
    using assms(1) d ch t invited
    by (cases r3) (auto simp add: create_channel_def request_def calls_of_append)
qed

text \<open>A run only ever adds events at the end of the trace.\<close>

lemma invite_trace:
  assumes "invite_users_to_channel remote cid users tr = (tr', r)"
  shows "\<exists>ext. tr' = tr @ ext"
  using assms by (auto simp add: invite_users_to_channel_def request_def split: sum.splits)

lemma create_channel_trace:
  "\<exists>ext. fst (create_channel remote n d p users tr) =
          tr @ Request (ConversationsCreate n p) # ext"
  unfolding create_channel_def request_def
  by (auto split: response.splits sum.splits prod.splits py_exn.splits dest!: invite_trace)

lemma create_channel_trace2:
  assumes "response_ok (remote (calls_of tr @ [ConversationsCreate n p]))"
    and "created_id (remote (calls_of tr @ [ConversationsCreate n p])) = Some cid"
  shows "\<exists>ext. fst (create_channel remote n d p users tr) =
           tr @ Request (ConversationsCreate n p) # Request (ConversationsSetPurpose cid d) # ext"
proof -
  obtain data ok where d: "remote (calls_of tr @ [ConversationsCreate n p]) = Body data"
      "py_get data ''ok'' JNull = Inr ok" "truthy ok"
    using assms(1) by (rule response_ok_cases)
  obtain ch where ch: "py_getitem data ''channel'' = Inr ch" "py_getitem ch ''id'' = Inr cid"
    using assms(2) d(1) by (auto split: sum.splits)
  show ?thesis
    unfolding create_channel_def request_def using d ch
    by (auto split: response.splits sum.splits prod.splits py_exn.splits dest!: invite_trace)
qed

lemma create_all_trace:
  "\<exists>ext. fst (create_all remote us cs tr) = tr @ ext"
proof (induction cs arbitrary: tr)
  case Nil
  show ?case by simp
next
  case (Cons c cs)
  show ?case
  proof (cases "create_all remote us (c # cs) tr = (tr, snd (create_all remote us (c # cs) tr))")
    case True
    then have "fst (create_all remote us (c # cs) tr) = tr @ []"
      by (metis fst_conv append_Nil2)
    then show ?thesis by blast
  next
    case False
    then obtain n d p users where
      step: "create_all remote us (c # cs) tr =
        (case create_channel remote n d p users tr of
           (tr', res) \<Rightarrow>
             (case res of
                Inl e \<Rightarrow> (tr', Uncaught e)
              | Inr success \<Rightarrow>
                  if \<not> success then (tr', Create_Failed n)
                  else create_all remote us cs (tr' @ [Sleep 1])))"
      by (auto split: sum.splits)
    obtain ext1 where e1: "fst (create_channel remote n d p users tr) =
        tr @ Request (ConversationsCreate n p) # ext1"
      using create_channel_trace by blast
    obtain ext2 where e2: "fst (create_all remote us cs
        (fst (create_channel remote n d p users tr) @ [Sleep 1])) =
        (fst (create_channel remote n d p users tr) @ [Sleep 1]) @ ext2"
      using Cons.IH by blast
    show ?thesis
      using step e1 e2
      by (cases "create_channel remote n d p users tr") (auto split: sum.splits)
  qed
qed

lemma create_all_extends_channel:
  assumes "py_get c ''name'' JNull = Inr n"
    and "py_get c ''description'' (JStr []) = Inr d"
    and "py_get c ''is_private'' (JBool False) = Inr p"
    and "py_getitem us ''users'' = Inr users"
  shows "\<exists>ext. fst (create_all remote us (c # cs) tr) =
           fst (create_channel remote n d p users tr) @ ext"
proof (cases "create_channel remote n d p users tr")
  case (Pair tr' res)
  obtain ext where "fst (create_all remote us cs (tr' @ [Sleep 1])) = (tr' @ [Sleep 1]) @ ext"
    using create_all_trace by blast
  then show ?thesis
    using assms Pair by (auto split: sum.splits)
qed

text \<open>The second loop when every request of the run succeeds.\<close>

lemma create_all_step_succeeds:
  assumes "py_getitem c ''name'' = Inr n"
    and "py_getitem us ''users'' = Inr users"
    and "py_join '','' users = Inr joined"
    and "all_succeed remote [] (calls_of (fst (create_all remote us (c # cs) tr)))"
  shows "\<exists>cid. entry_field c ''name'' JNull = n
           \<and> created_id (remote (calls_of tr @
                 [ConversationsCreate n (entry_field c ''is_private'' (JBool False))])) = Some cid
           \<and> create_all remote us (c # cs) tr =
               create_all remote us cs (tr @ provisioning joined c cid)"
proof -
  from has_name_get [OF assms(1), of JNull "JStr []" "JBool False"]
  obtain d p where f: "py_get c ''name'' JNull = Inr n"
      "py_get c ''description'' (JStr []) = Inr d"
      "py_get c ''is_private'' (JBool False) = Inr p"
    by blast
  then have e: "entry_field c ''name'' JNull = n"
      "entry_field c ''description'' (JStr []) = d"
      "entry_field c ''is_private'' (JBool False) = p"
    by (simp_all add: entry_field_def)
  let ?T = "fst (create_all remote us (c # cs) tr)"
  let ?C = "ConversationsCreate n p"
  obtain ext0 where ext0: "?T = fst (create_channel remote n d p users tr) @ ext0"
    using create_all_extends_channel [of c n d p us users remote cs tr] f assms(2) by blast
  obtain ext1 where "fst (create_channel remote n d p users tr) = tr @ Request ?C # ext1"
    using create_channel_trace by blast
  with ext0 have "?T = tr @ Request ?C # (ext1 @ ext0)" by simp
  with assms(4) have "succeeds ?C (remote (calls_of tr @ [?C]))"
    by (rule succeeds_in_run)
  then obtain cid where r1: "response_ok (remote (calls_of tr @ [?C]))"
      "created_id (remote (calls_of tr @ [?C])) = Some cid"
    by auto
  let ?S = "ConversationsSetPurpose cid d"
  obtain ext2 where "fst (create_channel remote n d p users tr) =
      tr @ Request ?C # Request ?S # ext2"
    using create_channel_trace2 [of remote tr n p cid d users] r1 by blast
  with ext0 have "?T = (tr @ [Request ?C]) @ Request ?S # (ext2 @ ext0)" by simp
  with assms(4) have "succeeds ?S (remote (calls_of (tr @ [Request ?C]) @ [?S]))"
    by (rule succeeds_in_run)
  then have r2: "response_ok (remote (calls_of tr @ [?C, ?S]))"
    by (simp add: calls_of_append)
  let ?I = "ConversationsInvite cid joined"
  let ?r3 = "remote (calls_of tr @ [?C, ?S, ?I])"
  have cc: "create_channel remote n d p users tr =
      (tr @ [Request ?C, Request ?S, Request ?I],
       if ?r3 = Transport_Error then Inr False
       else if response_ok ?r3 then Inr True else Inl Exception)"
    using r1 r2 assms(3) by (intro invite_reached) simp_all
  with ext0 have "?T = (tr @ [Request ?C, Request ?S]) @ Request ?I # ext0" by simp
  with assms(4)
  have "succeeds ?I (remote (calls_of (tr @ [Request ?C, Request ?S]) @ [?I]))"
    by (rule succeeds_in_run)
  then have r3: "response_ok ?r3"
    by (simp add: calls_of_append)
  then have "?r3 \<noteq> Transport_Error" by auto
  with cc r3 have cc': "create_channel remote n d p users tr =
      (tr @ [Request ?C, Request ?S, Request ?I], Inr True)"
    by simp
  have "create_all remote us (c # cs) tr =
      create_all remote us cs (tr @ [Request ?C, Request ?S, Request ?I, Sleep 1])"
    using f assms(2) cc' by simp
  then have "create_all remote us (c # cs) tr =
      create_all remote us cs (tr @ provisioning joined c cid)"
    by (simp add: provisioning_def e)
  with e(1,3) r1(2) show ?thesis by blast
qed

lemma create_all_all_succeed:
  assumes "map (\<lambda>c. py_getitem c ''name'') cs = map Inr ns"
    and "py_getitem us ''users'' = Inr users"
    and "py_join '','' users = Inr joined"
    and "all_succeed remote [] (calls_of (fst (create_all remote us cs tr)))"
  shows "map step_of (fst (create_all remote us cs tr)) =
           map step_of tr @ concat (map (\<lambda>n. [Creation n, Purpose, Invitation, Pause 1]) ns)
       \<and> snd (create_all remote us cs tr) = Completed"
  using assms(1,4)
proof (induction cs arbitrary: tr ns)
  case Nil
  then show ?case by simp
next
  case (Cons c cs)
  from Cons.prems(1) obtain n ns' where ns: "ns = n # ns'" "py_getitem c ''name'' = Inr n"
      "map (\<lambda>c. py_getitem c ''name'') cs = map Inr ns'"
    by (cases ns) auto
  obtain cid where nm: "entry_field c ''name'' JNull = n"
    and step: "create_all remote us (c # cs) tr =
        create_all remote us cs (tr @ provisioning joined c cid)"
    using create_all_step_succeeds [OF ns(2) assms(2,3) Cons.prems(2)] by blast
  have "map step_of (fst (create_all remote us cs (tr @ provisioning joined c cid))) =
          map step_of (tr @ provisioning joined c cid) @
          concat (map (\<lambda>n. [Creation n, Purpose, Invitation, Pause 1]) ns')
        \<and> snd (create_all remote us cs (tr @ provisioning joined c cid)) = Completed"
    using ns(3) Cons.prems(2) unfolding step by (rule Cons.IH)
  then show ?case
    unfolding step ns(1) by (simp add: provisioning_def nm)
qed

text \<open>The same loop, event by event.\<close>

lemma create_all_all_succeed_events:
  assumes "map (\<lambda>c. py_getitem c ''name'') cs = map Inr ns"
    and "py_getitem us ''users'' = Inr users"
    and "py_join '','' users = Inr joined"
    and "all_succeed remote [] (calls_of (fst (create_all remote us cs tr)))"
  shows "\<exists>ids. length ids = length cs
           \<and> fst (create_all remote us cs tr) = tr @ concat (map2 (provisioning joined) cs ids)
           \<and> (\<forall>k<length cs.
                 created_id (remote (calls_of
                   (take (length tr + 4 * k + 1) (fst (create_all remote us cs tr))))) =
                 Some (ids ! k))"
  using assms(1,4)
proof (induction cs arbitrary: tr ns)
  case Nil
  then show ?case by simp
next
  case (Cons c cs)
  from Cons.prems(1) obtain n ns' where ns: "ns = n # ns'" "py_getitem c ''name'' = Inr n"
      "map (\<lambda>c. py_getitem c ''name'') cs = map Inr ns'"
    by (cases ns) auto
  let ?p = "entry_field c ''is_private'' (JBool False)"
  obtain cid where nm: "entry_field c ''name'' JNull = n"
    and cid: "created_id (remote (calls_of tr @ [ConversationsCreate n ?p])) = Some cid"
    and step: "create_all remote us (c # cs) tr =
        create_all remote us cs (tr @ provisioning joined c cid)"
    using create_all_step_succeeds [OF ns(2) assms(2,3) Cons.prems(2)] by blast
  let ?tr' = "tr @ provisioning joined c cid"
  let ?T = "fst (create_all remote us cs ?tr')"
  obtain ids where ids: "length ids = length cs"
      "?T = ?tr' @ concat (map2 (provisioning joined) cs ids)"
      "\<forall>k<length cs. created_id (remote (calls_of (take (length ?tr' + 4 * k + 1) ?T))) =
          Some (ids ! k)"
    using Cons.IH [OF ns(3), of ?tr'] Cons.prems(2) unfolding step by blast
  have len: "length ?tr' = length tr + 4"
    by (simp add: provisioning_def)
  have first: "take (length tr + 1) ?T =
      tr @ [Request (ConversationsCreate n ?p)]"
    unfolding ids(2) by (simp add: provisioning_def nm)
  have "\<forall>k<length (c # cs).
          created_id (remote (calls_of (take (length tr + 4 * k + 1) ?T))) =
          Some ((cid # ids) ! k)"
  proof (intro allI impI)
    fix k assume k: "k < length (c # cs)"
    show "created_id (remote (calls_of (take (length tr + 4 * k + 1) ?T))) =
          Some ((cid # ids) ! k)"
    proof (cases k)
      case 0
      then show ?thesis
        using first cid by (simp add: calls_of_append)
    next
      case (Suc j)
      then have "j < length cs" using k by simp
      then have "created_id (remote (calls_of (take (length ?tr' + 4 * j + 1) ?T))) =
          Some (ids ! j)"
        using ids(3) by blast
      moreover have "length ?tr' + 4 * j + 1 = length tr + 4 * k + 1"
        using len Suc by simp
      ultimately show ?thesis
        using Suc by simp
    qed
  qed
  moreover have "length (cid # ids) = length (c # cs)"
    using ids(1) by simp
  moreover have "?T = tr @ concat (map2 (provisioning joined) (c # cs) (cid # ids))"
    using ids(2) by simp
  ultimately show ?case
    unfolding step by blast
qed

lemma steps_counts:
  "length (filter is_creation
      (concat (map (\<lambda>n. [Creation n, Purpose, Invitation, Pause 1]) ns))) = length ns
   \<and> count_list (concat (map (\<lambda>n. [Creation n, Purpose, Invitation, Pause 1]) ns)) Purpose
     = length ns
   \<and> count_list (concat (map (\<lambda>n. [Creation n, Purpose, Invitation, Pause 1]) ns)) Invitation
     = length ns"
  by (induction ns) simp_all

lemma all_fine_run:
  "main all_fine =
     ([Request ConversationsList,
       Request (ConversationsCreate (JStr ''proj-a'') (JBool False)),
       Request (ConversationsSetPurpose (JStr ''proj-a'') (JStr [])),
       Request (ConversationsInvite (JStr ''proj-a'') ''U1,U2''),
       Sleep 1,
       Request (ConversationsCreate (JStr ''proj-b'') (JBool True)),
       Request (ConversationsSetPurpose (JStr ''proj-b'') (JStr ''B'')),
       Request (ConversationsInvite (JStr ''proj-b'') ''U1,U2''),
       Sleep 1],
      Completed)"
  by (simp add: all_fine_def run_defs)

subsection \<open>The check against the existing channels\<close>

text \<open>
  C1. When some entry of the channel list has a name that is among the names of the existing
  remote channels, the run issues the listing request and nothing else (no create, no
  setPurpose, no invite for any entry) and stops, at the \<open>return\<close> of the check or on an
  exception that an earlier entry of the list raised in it.
\<close>

theorem collision_issues_no_creation:
  assumes "channels_json e = Loaded chs" "init_invite_users_json e = Loaded us"
    and "snd (get_existing_channels (slack_api e) []) = Inr existing"
    and "existing_channel_names existing = Inr names"
    and "py_iter chs = Inr cs" "c \<in> set cs"
    and "py_getitem c ''name'' = Inr n" "py_in n names = Inr True"
  shows "fst (main e) = [Request ConversationsList] \<and>
         ((\<exists>m. snd (main e) = Collision m) \<or> (\<exists>x. snd (main e) = Uncaught x))"
proof -
  have g: "get_existing_channels (slack_api e) [] = ([Request ConversationsList], Inr existing)"
    using assms(3) by (rule get_existing_channels_first)
  have "duplicate_check names cs \<noteq> Inr None"
    using assms(6-8) by (rule duplicate_check_collision)
  then show ?thesis
    using assms(1,2,4,5) g
    by (auto simp add: main_def load_documents_def run_def split: sum.splits option.splits)
qed

theorem collision_issues_no_creation_witness:
  "fst (main remote_has_b) = [Request ConversationsList] \<and>
   ((\<exists>m. snd (main remote_has_b) = Collision m) \<or> (\<exists>x. snd (main remote_has_b) = Uncaught x))"
  by (rule collision_issues_no_creation [where chs = two_channels and us = two_users
        and existing = "JArr [JObj [(''id'', JStr ''C9''), (''name'', JStr ''proj-b'')]]"
        and names = "[JStr ''proj-b'']"
        and cs = "[JObj [(''name'', JStr ''proj-a'')],
                   JObj [(''name'', JStr ''proj-b''), (''description'', JStr ''B''),
                         (''is_private'', JBool True)]]"
        and c = "JObj [(''name'', JStr ''proj-b''), (''description'', JStr ''B''),
                       (''is_private'', JBool True)]"
        and n = "JStr ''proj-b''"])
     (simp_all add: remote_has_b_def run_defs)

text \<open>
  C2, as stated, fails: two entries of the list have the name \<open>proj-a\<close>, no channel exists
  remotely, and the run creates \<open>proj-a\<close>, sets its purpose and invites the users before
  the second creation is refused.
\<close>

theorem same_name_twice_creates:
  "snd (get_existing_channels (slack_api same_name_twice) []) = Inr (JArr []) \<and>
   main same_name_twice =
     ([Request ConversationsList,
       Request (ConversationsCreate (JStr ''proj-a'') (JBool False)),
       Request (ConversationsSetPurpose (JStr ''proj-a'') (JStr [])),
       Request (ConversationsInvite (JStr ''proj-a'') ''U1,U2''),
       Sleep 1,
       Request (ConversationsCreate (JStr ''proj-a'') (JBool False))],
      Create_Failed (JStr ''proj-a''))"
  by (simp add: same_name_twice_def run_defs)

text \<open>
  C2, amended. The names of the list are compared with the existing remote names only: when
  every entry has a name and none of the names is among the existing ones, the check lets the
  run through whether or not two entries share a name, and (the invitee document having
  \<open>users\<close>) the create request for the first entry is issued.
\<close>

theorem no_remote_collision_first_create_issued:
  assumes "channels_json e = Loaded chs" "init_invite_users_json e = Loaded us"
    and "snd (get_existing_channels (slack_api e) []) = Inr existing"
    and "existing_channel_names existing = Inr names"
    and "py_iter chs = Inr (c # cs)"
    and "list_all (\<lambda>c. \<exists>n. py_getitem c ''name'' = Inr n \<and> py_in n names = Inr False) (c # cs)"
    and "py_getitem us ''users'' = Inr users"
  shows "\<exists>n p rest. py_getitem c ''name'' = Inr n \<and>
           fst (main e) = Request ConversationsList # Request (ConversationsCreate n p) # rest"
proof -
  have g: "get_existing_channels (slack_api e) [] = ([Request ConversationsList], Inr existing)"
    using assms(3) by (rule get_existing_channels_first)
  have d: "duplicate_check names (c # cs) = Inr None"
    using assms(6) by (simp only: duplicate_check_pass)
  obtain n where n: "py_getitem c ''name'' = Inr n"
    using assms(6) by auto
  from has_name_get [OF n, of JNull "JStr []" "JBool False"]
  obtain d' p where f: "py_get c ''name'' JNull = Inr n"
      "py_get c ''description'' (JStr []) = Inr d'"
      "py_get c ''is_private'' (JBool False) = Inr p"
    by blast
  have m: "main e = create_all (slack_api e) us (c # cs) [Request ConversationsList]"
    using assms(1,2,4,5) g d by (simp add: main_def load_documents_def run_def)
  obtain ext0 where "fst (create_all (slack_api e) us (c # cs) [Request ConversationsList]) =
      fst (create_channel (slack_api e) n d' p users [Request ConversationsList]) @ ext0"
    using create_all_extends_channel [of c n d' p us users "slack_api e" cs] f assms(7) by blast
  moreover obtain ext1 where
    "fst (create_channel (slack_api e) n d' p users [Request ConversationsList]) =
       [Request ConversationsList] @ Request (ConversationsCreate n p) # ext1"
    using create_channel_trace by blast
  ultimately show ?thesis
    using n m by simp
qed

theorem no_remote_collision_first_create_issued_witness:
  "\<exists>n p rest. py_getitem (JObj [(''name'', JStr ''proj-a'')]) ''name'' = Inr n \<and>
     fst (main same_name_twice) =
       Request ConversationsList # Request (ConversationsCreate n p) # rest"
  by (rule no_remote_collision_first_create_issued
        [where chs = "JArr [JObj [(''name'', JStr ''proj-a'')],
                            JObj [(''name'', JStr ''proj-a'')]]"
        and us = two_users and existing = "JArr []" and names = "[]"
        and cs = "[JObj [(''name'', JStr ''proj-a'')]]"
        and users = "JArr [JStr ''U1'', JStr ''U2'']"])
     (simp_all add: same_name_twice_def run_defs)

subsection \<open>The listing of the existing channels\<close>

text \<open>
  C3. When the listing request raises a transport error (in \<open>requests.get\<close> or as an HTTP
  error status), or the API answers with \<open>ok: false\<close>, \<open>get_existing_channels\<close> returns the
  empty list and raises nothing; the value is the one it returns for a workspace that has no
  channel.
\<close>

theorem listing_failure_gives_empty:
  assumes "remote (calls_of tr @ [ConversationsList]) = r"
    and "r = Transport_Error \<or> r = HTTP_Error \<or>
         (\<exists>kvs. r = Body (JObj kvs) \<and> map_of kvs ''ok'' = Some (JBool False))"
  shows "get_existing_channels remote tr = (tr @ [Request ConversationsList], Inr (JArr []))
       \<and> snd (get_existing_channels remote tr) = snd (get_existing_channels (workspace []) tr)"
  using assms by (auto simp add: get_existing_channels_def request_def workspace_def)

theorem listing_failure_gives_empty_witness:
  "get_existing_channels (\<lambda>h. Transport_Error) [] =
     ([Request ConversationsList], Inr (JArr []))
   \<and> snd (get_existing_channels (\<lambda>h. Transport_Error) []) =
     snd (get_existing_channels (workspace []) [])"
proof -
  have "get_existing_channels (\<lambda>h. Transport_Error) [] =
          ([] @ [Request ConversationsList], Inr (JArr []))
        \<and> snd (get_existing_channels (\<lambda>h. Transport_Error) []) =
          snd (get_existing_channels (workspace []) [])"
    by (rule listing_failure_gives_empty [of "\<lambda>h. Transport_Error" "[]" Transport_Error])
       simp_all
  then show ?thesis unfolding append_Nil .
qed

subsection \<open>Failures while a channel is provisioned\<close>

text \<open>
  C4. When the create request of a channel fails (transport error, HTTP error status, or a
  response with \<open>ok: false\<close>), \<open>create_channel\<close> returns \<open>False\<close> having issued the create
  request only (no setPurpose, no invite), and the loop of \<open>main\<close> returns there: no later
  entry of the list is processed.
\<close>

theorem create_failure_stops_batch:
  assumes "remote (calls_of tr @ [ConversationsCreate name is_private]) = r"
    and "r = Transport_Error \<or> r = HTTP_Error \<or>
         (\<exists>kvs. r = Body (JObj kvs) \<and> map_of kvs ''ok'' = Some (JBool False))"
    and "py_get channel ''name'' JNull = Inr name"
    and "py_get channel ''description'' (JStr []) = Inr description"
    and "py_get channel ''is_private'' (JBool False) = Inr is_private"
    and "py_getitem us ''users'' = Inr users"
  shows "create_channel remote name description is_private users tr =
           (tr @ [Request (ConversationsCreate name is_private)], Inr False)
       \<and> create_all remote us (channel # rest) tr =
           (tr @ [Request (ConversationsCreate name is_private)], Create_Failed name)"
  using create_refused [of remote tr name is_private r description users, OF assms(1,2)]
    assms(3-6)
  by simp

theorem create_failure_stops_batch_witness:
  "create_channel (workspace []) (JStr ''proj-a'') (JStr []) (JBool False)
       (JArr [JStr ''U1'', JStr ''U2''])
       [Request (ConversationsCreate (JStr ''proj-a'') (JBool False))] =
     ([Request (ConversationsCreate (JStr ''proj-a'') (JBool False)),
       Request (ConversationsCreate (JStr ''proj-a'') (JBool False))], Inr False)
   \<and> create_all (workspace []) two_users
       [JObj [(''name'', JStr ''proj-a'')], JObj [(''name'', JStr ''proj-b'')]]
       [Request (ConversationsCreate (JStr ''proj-a'') (JBool False))] =
     ([Request (ConversationsCreate (JStr ''proj-a'') (JBool False)),
       Request (ConversationsCreate (JStr ''proj-a'') (JBool False))],
      Create_Failed (JStr ''proj-a''))"
proof -
  have "create_channel (workspace []) (JStr ''proj-a'') (JStr []) (JBool False)
       (JArr [JStr ''U1'', JStr ''U2''])
       [Request (ConversationsCreate (JStr ''proj-a'') (JBool False))] =
     ([Request (ConversationsCreate (JStr ''proj-a'') (JBool False))] @
      [Request (ConversationsCreate (JStr ''proj-a'') (JBool False))], Inr False)
   \<and> create_all (workspace []) two_users
       (JObj [(''name'', JStr ''proj-a'')] # [JObj [(''name'', JStr ''proj-b'')]])
       [Request (ConversationsCreate (JStr ''proj-a'') (JBool False))] =
     ([Request (ConversationsCreate (JStr ''proj-a'') (JBool False))] @
      [Request (ConversationsCreate (JStr ''proj-a'') (JBool False))],
      Create_Failed (JStr ''proj-a''))"
    by (rule create_failure_stops_batch
          [where r = "Body (JObj [(''ok'', JBool False), (''error'', JStr ''name_taken'')])"])
       (simp_all add: run_defs)
  then show ?thesis unfolding append.simps .
qed

text \<open>
  C5. When the create request succeeds and the setPurpose request fails (transport error,
  HTTP error status, or \<open>ok: false\<close>), \<open>create_channel\<close> returns \<open>False\<close> having issued
  these two requests only: no invite, and nothing that would remove the channel. The loop of
  \<open>main\<close> returns there: no later entry of the list is processed.
\<close>

theorem set_purpose_failure_stops_batch:
  assumes "response_ok (remote (calls_of tr @ [ConversationsCreate name is_private]))"
    and "created_id (remote (calls_of tr @ [ConversationsCreate name is_private])) =
           Some channel_id"
    and "remote (calls_of tr @ [ConversationsCreate name is_private,
            ConversationsSetPurpose channel_id description]) = r"
    and "r = Transport_Error \<or> r = HTTP_Error \<or>
         (\<exists>kvs. r = Body (JObj kvs) \<and> map_of kvs ''ok'' = Some (JBool False))"
    and "py_get channel ''name'' JNull = Inr name"
    and "py_get channel ''description'' (JStr []) = Inr description"
    and "py_get channel ''is_private'' (JBool False) = Inr is_private"
    and "py_getitem us ''users'' = Inr users"
  shows "create_channel remote name description is_private users tr =
           (tr @ [Request (ConversationsCreate name is_private),
                  Request (ConversationsSetPurpose channel_id description)], Inr False)
       \<and> create_all remote us (channel # rest) tr =
           (tr @ [Request (ConversationsCreate name is_private),
                  Request (ConversationsSetPurpose channel_id description)], Create_Failed name)"
  using set_purpose_refused [of remote tr name is_private _ channel_id description r users]
    assms
  by simp

theorem set_purpose_failure_stops_batch_witness:
  "create_channel purpose_refused (JStr ''proj-a'') (JStr []) (JBool False)
       (JArr [JStr ''U1'', JStr ''U2'']) [] =
     ([Request (ConversationsCreate (JStr ''proj-a'') (JBool False)),
       Request (ConversationsSetPurpose (JStr ''proj-a'') (JStr []))], Inr False)
   \<and> create_all purpose_refused two_users
       [JObj [(''name'', JStr ''proj-a'')], JObj [(''name'', JStr ''proj-b'')]] [] =
     ([Request (ConversationsCreate (JStr ''proj-a'') (JBool False)),
       Request (ConversationsSetPurpose (JStr ''proj-a'') (JStr []))],
      Create_Failed (JStr ''proj-a''))"
proof -
  have "create_channel purpose_refused (JStr ''proj-a'') (JStr []) (JBool False)
       (JArr [JStr ''U1'', JStr ''U2'']) [] =
     ([] @ [Request (ConversationsCreate (JStr ''proj-a'') (JBool False)),
            Request (ConversationsSetPurpose (JStr ''proj-a'') (JStr []))], Inr False)
   \<and> create_all purpose_refused two_users
       (JObj [(''name'', JStr ''proj-a'')] # [JObj [(''name'', JStr ''proj-b'')]]) [] =
     ([] @ [Request (ConversationsCreate (JStr ''proj-a'') (JBool False)),
            Request (ConversationsSetPurpose (JStr ''proj-a'') (JStr []))],
      Create_Failed (JStr ''proj-a''))"
    by (rule set_purpose_failure_stops_batch
          [where r = "Body (JObj [(''ok'', JBool False),
                                  (''error'', JStr ''channel_not_found'')])"])
       (simp_all add: run_defs)
  then show ?thesis unfolding append_Nil .
qed

text \<open>
  C6, as stated, fails for a transport error: when \<open>requests.post\<close> of the invite raises,
  \<open>create_channel\<close> catches the exception and returns \<open>False\<close>, and \<open>main\<close> ends at its
  \<open>return\<close> after the failed channel, not on an exception.
\<close>

theorem invite_transport_error_returns_false:
  "create_channel invite_unreachable (JStr ''proj-a'') (JStr []) (JBool False)
       (JArr [JStr ''U1'', JStr ''U2'']) [Request ConversationsList] =
     ([Request ConversationsList,
       Request (ConversationsCreate (JStr ''proj-a'') (JBool False)),
       Request (ConversationsSetPurpose (JStr ''proj-a'') (JStr [])),
       Request (ConversationsInvite (JStr ''proj-a'') ''U1,U2'')],
      Inr False)
   \<and> main invite_down =
     ([Request ConversationsList,
       Request (ConversationsCreate (JStr ''proj-a'') (JBool False)),
       Request (ConversationsSetPurpose (JStr ''proj-a'') (JStr [])),
       Request (ConversationsInvite (JStr ''proj-a'') ''U1,U2'')],
      Create_Failed (JStr ''proj-a''))"
  by (simp add: invite_down_def run_defs)

text \<open>
  C6, amended. When the create and the setPurpose requests succeed and the invite request
  fails, no later entry of the list is processed. A failure that is an HTTP error status or a
  response with \<open>ok: false\<close> leaves \<open>create_channel\<close> and \<open>main\<close> as a raised \<open>Exception\<close>;
  a transport error raised by \<open>requests.post\<close> itself makes \<open>create_channel\<close> return
  \<open>False\<close>, and \<open>main\<close> returns.
\<close>

theorem invite_failure_stops_batch:
  assumes "response_ok (remote (calls_of tr @ [ConversationsCreate name is_private]))"
    and "created_id (remote (calls_of tr @ [ConversationsCreate name is_private])) =
           Some channel_id"
    and "response_ok (remote (calls_of tr @ [ConversationsCreate name is_private,
            ConversationsSetPurpose channel_id description]))"
    and "py_join '','' users = Inr joined"
    and "remote (calls_of tr @ [ConversationsCreate name is_private,
            ConversationsSetPurpose channel_id description,
            ConversationsInvite channel_id joined]) = r"
    and "r = Transport_Error \<or> r = HTTP_Error \<or>
         (\<exists>kvs. r = Body (JObj kvs) \<and> map_of kvs ''ok'' = Some (JBool False))"
    and "py_get channel ''name'' JNull = Inr name"
    and "py_get channel ''description'' (JStr []) = Inr description"
    and "py_get channel ''is_private'' (JBool False) = Inr is_private"
    and "py_getitem us ''users'' = Inr users"
  shows "create_channel remote name description is_private users tr =
           (tr @ [Request (ConversationsCreate name is_private),
                  Request (ConversationsSetPurpose channel_id description),
                  Request (ConversationsInvite channel_id joined)],
            if r = Transport_Error then Inr False else Inl Exception)
       \<and> create_all remote us (channel # rest) tr =
           (tr @ [Request (ConversationsCreate name is_private),
                  Request (ConversationsSetPurpose channel_id description),
                  Request (ConversationsInvite channel_id joined)],
            if r = Transport_Error then Create_Failed name else Uncaught Exception)"
proof -
  have "\<not> response_ok r"
    using assms(6) by auto
  then have "create_channel remote name description is_private users tr =
           (tr @ [Request (ConversationsCreate name is_private),
                  Request (ConversationsSetPurpose channel_id description),
                  Request (ConversationsInvite channel_id joined)],
            if r = Transport_Error then Inr False else Inl Exception)"
    using invite_reached [of remote tr name is_private _ channel_id description users joined r]
      assms(1-5)
    by simp
  then show ?thesis
    using assms(7-10) by simp
qed

theorem invite_failure_stops_batch_witness:
  "create_channel invite_refused (JStr ''proj-a'') (JStr []) (JBool False)
       (JArr [JStr ''U1'', JStr ''U2'']) [] =
     ([Request (ConversationsCreate (JStr ''proj-a'') (JBool False)),
       Request (ConversationsSetPurpose (JStr ''proj-a'') (JStr [])),
       Request (ConversationsInvite (JStr ''proj-a'') ''U1,U2'')],
      Inl Exception)
   \<and> create_all invite_refused two_users
       [JObj [(''name'', JStr ''proj-a'')], JObj [(''name'', JStr ''proj-b'')]] [] =
     ([Request (ConversationsCreate (JStr ''proj-a'') (JBool False)),
       Request (ConversationsSetPurpose (JStr ''proj-a'') (JStr [])),
       Request (ConversationsInvite (JStr ''proj-a'') ''U1,U2'')],
      Uncaught Exception)
   \<and> create_all invite_unreachable two_users
       [JObj [(''name'', JStr ''proj-a'')], JObj [(''name'', JStr ''proj-b'')]] [] =
     ([Request (ConversationsCreate (JStr ''proj-a'') (JBool False)),
       Request (ConversationsSetPurpose (JStr ''proj-a'') (JStr [])),
       Request (ConversationsInvite (JStr ''proj-a'') ''U1,U2'')],
      Create_Failed (JStr ''proj-a''))"
proof -
  have refused: "create_channel invite_refused (JStr ''proj-a'') (JStr []) (JBool False)
       (JArr [JStr ''U1'', JStr ''U2'']) [] =
     ([] @ [Request (ConversationsCreate (JStr ''proj-a'') (JBool False)),
            Request (ConversationsSetPurpose (JStr ''proj-a'') (JStr [])),
            Request (ConversationsInvite (JStr ''proj-a'') ''U1,U2'')],
      if Body (JObj [(''ok'', JBool False), (''error'', JStr ''user_not_found'')]) =
           Transport_Error
      then Inr False else Inl Exception)
   \<and> create_all invite_refused two_users
       (JObj [(''name'', JStr ''proj-a'')] # [JObj [(''name'', JStr ''proj-b'')]]) [] =
     ([] @ [Request (ConversationsCreate (JStr ''proj-a'') (JBool False)),
            Request (ConversationsSetPurpose (JStr ''proj-a'') (JStr [])),
            Request (ConversationsInvite (JStr ''proj-a'') ''U1,U2'')],
      if Body (JObj [(''ok'', JBool False), (''error'', JStr ''user_not_found'')]) =
           Transport_Error
      then Create_Failed (JStr ''proj-a'') else Uncaught Exception)"
    by (rule invite_failure_stops_batch) (simp_all add: run_defs)
  have unreachable: "create_channel invite_unreachable (JStr ''proj-a'') (JStr []) (JBool False)
       (JArr [JStr ''U1'', JStr ''U2'']) [] =
     ([] @ [Request (ConversationsCreate (JStr ''proj-a'') (JBool False)),
            Request (ConversationsSetPurpose (JStr ''proj-a'') (JStr [])),
            Request (ConversationsInvite (JStr ''proj-a'') ''U1,U2'')],
      if Transport_Error = Transport_Error then Inr False else Inl Exception)
   \<and> create_all invite_unreachable two_users
       (JObj [(''name'', JStr ''proj-a'')] # [JObj [(''name'', JStr ''proj-b'')]]) [] =
     ([] @ [Request (ConversationsCreate (JStr ''proj-a'') (JBool False)),
            Request (ConversationsSetPurpose (JStr ''proj-a'') (JStr [])),
            Request (ConversationsInvite (JStr ''proj-a'') ''U1,U2'')],
      if Transport_Error = Transport_Error
      then Create_Failed (JStr ''proj-a'') else Uncaught Exception)"
    by (rule invite_failure_stops_batch) (simp_all add: run_defs)
  from refused unreachable show ?thesis by simp
qed

subsection \<open>A run in which every request succeeds\<close>

text \<open>
  C7. Let the list have \<open>n\<close> entries, each with a name that is not among the existing remote
  names, let the invitee document give users that can be joined (it is an invitee set: without
  them no invite request can be built), and let every request the run issues succeed. Then
  the run is the listing followed, for each entry in the order of the list, by four events:
  the create request with the name and the visibility of the entry, the setPurpose request
  with the description of the entry for the id that the response to this create request
  gave, the invite request of the joined users for the same id, and a pause of 1. So there
  are \<open>n\<close> requests of each of the three kinds, all of an entry before any of the next, and
  the run reaches the end of \<open>main\<close>. (Entries are counted from 0: the first \<open>4 * k + 2\<close>
  events of the run end with the create request of entry \<open>k\<close>, so \<open>ids ! k\<close> is the id in
  the response to it.)
\<close>

theorem all_requests_succeed_full_run:
  assumes "channels_json e = Loaded chs" "init_invite_users_json e = Loaded us"
    and "snd (get_existing_channels (slack_api e) []) = Inr existing"
    and "existing_channel_names existing = Inr names"
    and "py_iter chs = Inr cs"
    and "map (\<lambda>c. py_getitem c ''name'') cs = map Inr ns"
    and "list_all (\<lambda>n. py_in n names = Inr False) ns"
    and "py_getitem us ''users'' = Inr users"
    and "py_join '','' users = Inr joined"
    and "all_succeed (slack_api e) [] (calls_of (fst (main e)))"
  shows "(\<exists>ids. length ids = length cs
           \<and> fst (main e) =
               Request ConversationsList # concat (map2 (provisioning joined) cs ids)
           \<and> (\<forall>k<length cs.
                 created_id (slack_api e (calls_of (take (4 * k + 2) (fst (main e))))) =
                 Some (ids ! k)))
       \<and> map step_of (fst (main e)) =
           Listing # concat (map (\<lambda>n. [Creation n, Purpose, Invitation, Pause 1]) ns)
       \<and> snd (main e) = Completed
       \<and> length (filter is_creation (map step_of (fst (main e)))) = length cs
       \<and> count_list (map step_of (fst (main e))) Purpose = length cs
       \<and> count_list (map step_of (fst (main e))) Invitation = length cs"
proof -
  have g: "get_existing_channels (slack_api e) [] = ([Request ConversationsList], Inr existing)"
    using assms(3) by (rule get_existing_channels_first)
  have "list_all (\<lambda>c. \<exists>n. py_getitem c ''name'' = Inr n \<and> py_in n names = Inr False) cs"
    using assms(6,7)
  proof (induction cs arbitrary: ns)
    case Nil
    show ?case by simp
  next
    case (Cons c cs)
    then show ?case by (cases ns) auto
  qed
  then have d: "duplicate_check names cs = Inr None"
    by (simp only: duplicate_check_pass)
  have m: "main e = create_all (slack_api e) us cs [Request ConversationsList]"
    using assms(1,2,4,5) g d by (simp add: main_def load_documents_def run_def)
  have "map step_of (fst (create_all (slack_api e) us cs [Request ConversationsList])) =
          map step_of [Request ConversationsList] @
          concat (map (\<lambda>n. [Creation n, Purpose, Invitation, Pause 1]) ns)
        \<and> snd (create_all (slack_api e) us cs [Request ConversationsList]) = Completed"
    using assms(6,8,9) assms(10) [unfolded m] by (rule create_all_all_succeed)
  then have s: "map step_of (fst (main e)) =
           Listing # concat (map (\<lambda>n. [Creation n, Purpose, Invitation, Pause 1]) ns)"
      and c: "snd (main e) = Completed"
    unfolding m by simp_all
  have "\<exists>ids. length ids = length cs
           \<and> fst (create_all (slack_api e) us cs [Request ConversationsList]) =
               [Request ConversationsList] @ concat (map2 (provisioning joined) cs ids)
           \<and> (\<forall>k<length cs.
                 created_id (slack_api e (calls_of
                   (take (length [Request ConversationsList] + 4 * k + 1)
                      (fst (create_all (slack_api e) us cs [Request ConversationsList]))))) =
                 Some (ids ! k))"
    using assms(6,8,9) assms(10) [unfolded m] by (rule create_all_all_succeed_events)
  then obtain ids where ids: "length ids = length cs"
      "fst (main e) = Request ConversationsList # concat (map2 (provisioning joined) cs ids)"
      "\<forall>k<length cs. created_id (slack_api e (calls_of (take (1 + 4 * k + 1) (fst (main e))))) =
          Some (ids ! k)"
    unfolding m by auto
  have "\<And>k. 1 + 4 * k + 1 = 4 * k + (2::nat)"
    by simp
  with ids(3) have "\<forall>k<length cs.
      created_id (slack_api e (calls_of (take (4 * k + 2) (fst (main e))))) = Some (ids ! k)"
    by simp
  with ids(1,2) have ev: "\<exists>ids. length ids = length cs
           \<and> fst (main e) =
               Request ConversationsList # concat (map2 (provisioning joined) cs ids)
           \<and> (\<forall>k<length cs.
                 created_id (slack_api e (calls_of (take (4 * k + 2) (fst (main e))))) =
                 Some (ids ! k))"
    by blast
  have "length ns = length cs"
    using assms(6) by (metis length_map)
  then have "map step_of (fst (main e)) =
           Listing # concat (map (\<lambda>n. [Creation n, Purpose, Invitation, Pause 1]) ns)
       \<and> snd (main e) = Completed
       \<and> length (filter is_creation (map step_of (fst (main e)))) = length cs
       \<and> count_list (map step_of (fst (main e))) Purpose = length cs
       \<and> count_list (map step_of (fst (main e))) Invitation = length cs"
    using s c steps_counts [of ns] by simp
  with ev show ?thesis by (rule conjI)
qed

theorem all_requests_succeed_full_run_witness:
  "(\<exists>ids. length ids = 2
      \<and> fst (main all_fine) =
          Request ConversationsList #
          concat (map2 (provisioning ''U1,U2'')
            [JObj [(''name'', JStr ''proj-a'')],
             JObj [(''name'', JStr ''proj-b''), (''description'', JStr ''B''),
                   (''is_private'', JBool True)]] ids)
      \<and> (\<forall>k<2. created_id (slack_api all_fine (calls_of (take (4 * k + 2) (fst (main all_fine)))))
                 = Some (ids ! k)))
   \<and> fst (main all_fine) =
       [Request ConversationsList,
        Request (ConversationsCreate (JStr ''proj-a'') (JBool False)),
        Request (ConversationsSetPurpose (JStr ''proj-a'') (JStr [])),
        Request (ConversationsInvite (JStr ''proj-a'') ''U1,U2''),
        Sleep 1,
        Request (ConversationsCreate (JStr ''proj-b'') (JBool True)),
        Request (ConversationsSetPurpose (JStr ''proj-b'') (JStr ''B'')),
        Request (ConversationsInvite (JStr ''proj-b'') ''U1,U2''),
        Sleep 1]
   \<and> map step_of (fst (main all_fine)) =
       [Listing,
        Creation (JStr ''proj-a''), Purpose, Invitation, Pause 1,
        Creation (JStr ''proj-b''), Purpose, Invitation, Pause 1]
   \<and> snd (main all_fine) = Completed
   \<and> length (filter is_creation (map step_of (fst (main all_fine)))) = 2
   \<and> count_list (map step_of (fst (main all_fine))) Purpose = 2
   \<and> count_list (map step_of (fst (main all_fine))) Invitation = 2"
proof -
  have inst: "(\<exists>ids. length ids =
        length [JObj [(''name'', JStr ''proj-a'')],
                JObj [(''name'', JStr ''proj-b''), (''description'', JStr ''B''),
                      (''is_private'', JBool True)]]
      \<and> fst (main all_fine) =
          Request ConversationsList #
          concat (map2 (provisioning ''U1,U2'')
            [JObj [(''name'', JStr ''proj-a'')],
             JObj [(''name'', JStr ''proj-b''), (''description'', JStr ''B''),
                   (''is_private'', JBool True)]] ids)
      \<and> (\<forall>k<length [JObj [(''name'', JStr ''proj-a'')],
                JObj [(''name'', JStr ''proj-b''), (''description'', JStr ''B''),
                      (''is_private'', JBool True)]].
            created_id (slack_api all_fine (calls_of (take (4 * k + 2) (fst (main all_fine)))))
                 = Some (ids ! k)))
   \<and> map step_of (fst (main all_fine)) =
     Listing # concat (map (\<lambda>n. [Creation n, Purpose, Invitation, Pause 1])
                        [JStr ''proj-a'', JStr ''proj-b''])
   \<and> snd (main all_fine) = Completed
   \<and> length (filter is_creation (map step_of (fst (main all_fine)))) =
       length [JObj [(''name'', JStr ''proj-a'')],
               JObj [(''name'', JStr ''proj-b''), (''description'', JStr ''B''),
                     (''is_private'', JBool True)]]
   \<and> count_list (map step_of (fst (main all_fine))) Purpose =
       length [JObj [(''name'', JStr ''proj-a'')],
               JObj [(''name'', JStr ''proj-b''), (''description'', JStr ''B''),
                     (''is_private'', JBool True)]]
   \<and> count_list (map step_of (fst (main all_fine))) Invitation =
       length [JObj [(''name'', JStr ''proj-a'')],
               JObj [(''name'', JStr ''proj-b''), (''description'', JStr ''B''),
                     (''is_private'', JBool True)]]"
  proof (rule all_requests_succeed_full_run
        [where chs = two_channels and us = two_users and existing = "JArr []"
          and names = "[]" and users = "JArr [JStr ''U1'', JStr ''U2'']"
          and joined = "''U1,U2''"])
    show "all_succeed (slack_api all_fine) [] (calls_of (fst (main all_fine)))"
      unfolding all_fine_run by (simp add: all_fine_def workspace_def)
  qed (simp_all add: all_fine_def run_defs)
  have two: "length [JObj [(''name'', JStr ''proj-a'')],
                JObj [(''name'', JStr ''proj-b''), (''description'', JStr ''B''),
                      (''is_private'', JBool True)]] = 2"
    by simp
  from inst have ev: "\<exists>ids. length ids = 2
      \<and> fst (main all_fine) =
          Request ConversationsList #
          concat (map2 (provisioning ''U1,U2'')
            [JObj [(''name'', JStr ''proj-a'')],
             JObj [(''name'', JStr ''proj-b''), (''description'', JStr ''B''),
                   (''is_private'', JBool True)]] ids)
      \<and> (\<forall>k<2. created_id (slack_api all_fine (calls_of (take (4 * k + 2) (fst (main all_fine)))))
                 = Some (ids ! k))"
    unfolding two by (rule conjunct1)
  from inst have rest: "map step_of (fst (main all_fine)) =
       [Listing,
        Creation (JStr ''proj-a''), Purpose, Invitation, Pause 1,
        Creation (JStr ''proj-b''), Purpose, Invitation, Pause 1]
   \<and> snd (main all_fine) = Completed
   \<and> length (filter is_creation (map step_of (fst (main all_fine)))) = 2
   \<and> count_list (map step_of (fst (main all_fine))) Purpose = 2
   \<and> count_list (map step_of (fst (main all_fine))) Invitation = 2"
    unfolding all_fine_run by simp
  have run: "fst (main all_fine) =
       [Request ConversationsList,
        Request (ConversationsCreate (JStr ''proj-a'') (JBool False)),
        Request (ConversationsSetPurpose (JStr ''proj-a'') (JStr [])),
        Request (ConversationsInvite (JStr ''proj-a'') ''U1,U2''),
        Sleep 1,
        Request (ConversationsCreate (JStr ''proj-b'') (JBool True)),
        Request (ConversationsSetPurpose (JStr ''proj-b'') (JStr ''B'')),
        Request (ConversationsInvite (JStr ''proj-b'') ''U1,U2''),
        Sleep 1]"
    by (simp add: all_fine_run)
  show ?thesis by (rule conjI [OF ev conjI [OF run rest]])
qed

subsection \<open>The fields of an entry\<close>

text \<open>
  C8. For an entry with a name, the create request carries \<open>is_private\<close> of the entry, or
  \<open>False\<close> when the entry has none, and (the creation having succeeded) the setPurpose
  request carries \<open>description\<close> of the entry, or the empty string when the entry has none.
  An entry without \<open>name\<close> gets no default name: a list that has one is never provisioned,
  the run stops in the check after the listing request.
\<close>

theorem optional_fields_default_name_required:
  assumes "py_getitem us ''users'' = Inr users"
    and "map_of kvs ''name'' = Some n"
    and "is_private = (case map_of kvs ''is_private'' of None \<Rightarrow> JBool False | Some v \<Rightarrow> v)"
    and "description = (case map_of kvs ''description'' of None \<Rightarrow> JStr [] | Some v \<Rightarrow> v)"
    and "response_ok (remote (calls_of tr @ [ConversationsCreate n is_private]))"
    and "created_id (remote (calls_of tr @ [ConversationsCreate n is_private])) = Some channel_id"
    and "channels_json e = Loaded chs" "init_invite_users_json e = Loaded us'"
    and "snd (get_existing_channels (slack_api e) []) = Inr existing"
    and "existing_channel_names existing = Inr names"
    and "py_iter chs = Inr cs" "JObj kvs' \<in> set cs" "map_of kvs' ''name'' = None"
  shows "(\<exists>ext. fst (create_all remote us (JObj kvs # rest) tr) =
            tr @ Request (ConversationsCreate n is_private)
               # Request (ConversationsSetPurpose channel_id description) # ext)
       \<and> fst (main e) = [Request ConversationsList]
       \<and> ((\<exists>m. snd (main e) = Collision m) \<or> (\<exists>x. snd (main e) = Uncaught x))"
proof -
  have f: "py_get (JObj kvs) ''name'' JNull = Inr n"
      "py_get (JObj kvs) ''description'' (JStr []) = Inr description"
      "py_get (JObj kvs) ''is_private'' (JBool False) = Inr is_private"
    using assms(2-4) by (simp_all split: option.splits)
  obtain ext0 where "fst (create_all remote us (JObj kvs # rest) tr) =
      fst (create_channel remote n description is_private users tr) @ ext0"
    using create_all_extends_channel
      [of "JObj kvs" n description is_private us users remote rest tr] f assms(1)
    by blast
  moreover obtain ext1 where "fst (create_channel remote n description is_private users tr) =
      tr @ Request (ConversationsCreate n is_private)
         # Request (ConversationsSetPurpose channel_id description) # ext1"
    using create_channel_trace2 [of remote tr n is_private channel_id description users]
      assms(5,6) by blast
  ultimately have a: "\<exists>ext. fst (create_all remote us (JObj kvs # rest) tr) =
            tr @ Request (ConversationsCreate n is_private)
               # Request (ConversationsSetPurpose channel_id description) # ext"
    by simp
  have g: "get_existing_channels (slack_api e) [] = ([Request ConversationsList], Inr existing)"
    using assms(9) by (rule get_existing_channels_first)
  have "py_getitem (JObj kvs') ''name'' = Inl KeyError"
    using assms(13) by simp
  then have "\<not> list_all (\<lambda>c. \<exists>n. py_getitem c ''name'' = Inr n \<and> py_in n names = Inr False) cs"
    using assms(12) unfolding list_all_iff by (auto intro!: bexI [of _ "JObj kvs'"])
  then have "duplicate_check names cs \<noteq> Inr None"
    by (simp add: duplicate_check_pass)
  then have "fst (main e) = [Request ConversationsList] \<and>
         ((\<exists>m. snd (main e) = Collision m) \<or> (\<exists>x. snd (main e) = Uncaught x))"
    using assms(7,8,10,11) g
    by (auto simp add: main_def load_documents_def run_def split: sum.splits option.splits)
  with a show ?thesis by simp
qed

theorem optional_fields_default_name_required_witness:
  "(\<exists>ext. fst (create_all (workspace []) two_users [JObj [(''name'', JStr ''proj-a'')]] []) =
            Request (ConversationsCreate (JStr ''proj-a'') (JBool False))
               # Request (ConversationsSetPurpose (JStr ''proj-a'') (JStr [])) # ext)
       \<and> fst (main nameless_entry) = [Request ConversationsList]
       \<and> ((\<exists>m. snd (main nameless_entry) = Collision m) \<or>
          (\<exists>x. snd (main nameless_entry) = Uncaught x))"
proof -
  have "(\<exists>ext. fst (create_all (workspace []) two_users
                     (JObj [(''name'', JStr ''proj-a'')] # []) []) =
            [] @ Request (ConversationsCreate (JStr ''proj-a'') (JBool False))
               # Request (ConversationsSetPurpose (JStr ''proj-a'') (JStr [])) # ext)
       \<and> fst (main nameless_entry) = [Request ConversationsList]
       \<and> ((\<exists>m. snd (main nameless_entry) = Collision m) \<or>
          (\<exists>x. snd (main nameless_entry) = Uncaught x))"
    by (rule optional_fields_default_name_required
          [where users = "JArr [JStr ''U1'', JStr ''U2'']"
            and kvs = "[(''name'', JStr ''proj-a'')]"
            and chs = "JArr [JObj [(''name'', JStr ''proj-a'')],
                             JObj [(''description'', JStr ''B'')]]"
            and us' = two_users and existing = "JArr []" and names = "[]"
            and cs = "[JObj [(''name'', JStr ''proj-a'')], JObj [(''description'', JStr ''B'')]]"
            and kvs' = "[(''description'', JStr ''B'')]"])
       (simp_all add: nameless_entry_def run_defs)
  then show ?thesis unfolding append_Nil .
qed

subsection \<open>The two documents\<close>

text \<open>
  C9. When one of the two documents cannot be loaded (the file cannot be opened, or its
  content is not JSON, or not UTF-8), the run issues no request at all: it ends at the
  \<open>return\<close> of the \<open>except\<close> clause, or on the uncaught decoding error.
\<close>

theorem unloaded_document_no_request:
  assumes "(\<forall>j. channels_json e \<noteq> Loaded j) \<or> (\<forall>j. init_invite_users_json e \<noteq> Loaded j)"
  shows "fst (main e) = [] \<and>
         (snd (main e) = Config_Error \<or> snd (main e) = Uncaught UnicodeDecodeError)"
  using assms by (auto simp add: main_def load_documents_def split: document.splits)

theorem unloaded_document_no_request_witness:
  "fst (main no_invite_file) = [] \<and>
   (snd (main no_invite_file) = Config_Error \<or>
    snd (main no_invite_file) = Uncaught UnicodeDecodeError)"
  by (rule unloaded_document_no_request) (simp add: no_invite_file_def)

text \<open>
  C10. When the invitee document is a JSON object without the key \<open>users\<close>, loading
  succeeds, the listing request is issued and the check against the existing names is passed;
  the run then ends with an uncaught \<open>KeyError\<close> at the first channel, before any create
  request.
\<close>

theorem missing_users_key_raises_late:
  assumes "channels_json e = Loaded chs" "init_invite_users_json e = Loaded (JObj kvs)"
    and "map_of kvs ''users'' = None"
    and "snd (get_existing_channels (slack_api e) []) = Inr existing"
    and "existing_channel_names existing = Inr names"
    and "py_iter chs = Inr (c # cs)"
    and "list_all (\<lambda>c. \<exists>n. py_getitem c ''name'' = Inr n \<and> py_in n names = Inr False) (c # cs)"
  shows "main e = ([Request ConversationsList], Uncaught KeyError)"
proof -
  have g: "get_existing_channels (slack_api e) [] = ([Request ConversationsList], Inr existing)"
    using assms(4) by (rule get_existing_channels_first)
  have d: "duplicate_check names (c # cs) = Inr None"
    using assms(7) by (simp only: duplicate_check_pass)
  obtain n where n: "py_getitem c ''name'' = Inr n"
    using assms(7) by auto
  have "create_all (slack_api e) (JObj kvs) (c # cs) [Request ConversationsList]
          = ([Request ConversationsList], Uncaught KeyError)"
    using has_name_get [OF n, of JNull "JStr []" "JBool False"] assms(3) by auto
  then show ?thesis
    using assms(1,2,5,6) g d by (simp add: main_def load_documents_def run_def)
qed

theorem missing_users_key_raises_late_witness:
  "main no_users_key = ([Request ConversationsList], Uncaught KeyError)"
  by (rule missing_users_key_raises_late [where chs = two_channels
        and kvs = "[(''members'', JArr [JStr ''U1''])]"
        and existing = "JArr []" and names = "[]"
        and c = "JObj [(''name'', JStr ''proj-a'')]"
        and cs = "[JObj [(''name'', JStr ''proj-b''), (''description'', JStr ''B''),
                         (''is_private'', JBool True)]]"])
     (simp_all add: no_users_key_def run_defs)

end
